theory Spec2Isabelle
  imports Main
begin

section \<open>Strings of the Python runtime\<close>

text \<open>
  A Python \<open>str\<close> is modelled as a \<open>string\<close>, the list of its code points; a
  \<open>char\<close> stands for a code point below 256. The built-in methods used by
  \<open>api/index.py\<close> and \<open>examples/ui_app.py\<close> are written out on that range:
  \<open>str.strip()\<close>, \<open>str.split(",")\<close>, \<open>str.lower()\<close> and \<open>int(str)\<close>.
\<close>

text \<open>The characters \<open>str.strip()\<close> removes: those for which \<open>str.isspace()\<close> holds.\<close>

definition is_space :: "char \<Rightarrow> bool" where
  "is_space c = (let n = (of_char c :: nat) in
     (9 \<le> n \<and> n \<le> 13) \<or> (28 \<le> n \<and> n \<le> 32) \<or> n = 133 \<or> n = 160)"

definition strip :: "string \<Rightarrow> string" where
  "strip s = dropWhile is_space (rev (dropWhile is_space (rev s)))"

text \<open>\<open>raw.split(",")\<close>: the segments between commas; never the empty list.\<close>

fun split_comma :: "string \<Rightarrow> string list" where
  "split_comma [] = [[]]"
| "split_comma (c # cs) =
     (if c = CHR '','' then [] # split_comma cs
      else (case split_comma cs of
              [] \<Rightarrow> [[c]]
            | w # ws \<Rightarrow> (c # w) # ws))"

text \<open>\<open>",".join(segments)\<close>, the inverse of the split.\<close>

fun join_comma :: "string list \<Rightarrow> string" where
  "join_comma [] = []"
| "join_comma [w] = w"
| "join_comma (w # v # ws) = w @ CHR '','' # join_comma (v # ws)"

text \<open>
  \<open>str.lower()\<close>: below 256 the cased letters are \<open>A\<close>..\<open>Z\<close> and the Latin-1 capitals
  192..222 without the multiplication sign 215; each lowers to the code point 32 above.
\<close>

definition lower_char :: "char \<Rightarrow> char" where
  "lower_char c = (let n = (of_char c :: nat) in
     if (65 \<le> n \<and> n \<le> 90) \<or> (192 \<le> n \<and> n \<le> 222 \<and> n \<noteq> 215)
     then char_of (n + 32) else c)"

definition lower :: "string \<Rightarrow> string" where
  "lower s = map lower_char s"

subsection \<open>Exceptions\<close>

text \<open>
  The exceptions of class \<open>Exception\<close> that the code distinguishes, each with the message
  \<open>str(exc)\<close> gives: the scraper's domain error, the \<open>ValueError\<close> of \<open>int()\<close>, the
  \<open>NameError\<close> of reading an unbound variable, and any other exception.
\<close>

datatype exn =
    GPlayScraperError string
  | ValueError string
  | NameError string
  | OtherException string

fun str_exc :: "exn \<Rightarrow> string" where
  "str_exc (GPlayScraperError m) = m"
| "str_exc (ValueError m) = m"
| "str_exc (NameError m) = m"
| "str_exc (OtherException m) = m"

subsection \<open>The built-in \<open>int\<close> on a string\<close>

text \<open>
  \<open>int(s)\<close> in base 10 skips white space at both ends (here \<open>FS\<close>..\<open>US\<close>, 28..31, do not
  count), reads an optional sign, then decimal digits that single underscores may separate,
  and raises \<open>ValueError\<close> on anything else.
\<close>

definition is_int_space :: "char \<Rightarrow> bool" where
  "is_int_space c = (let n = (of_char c :: nat) in
     (9 \<le> n \<and> n \<le> 13) \<or> n = 32 \<or> n = 133 \<or> n = 160)"

definition is_digit :: "char \<Rightarrow> bool" where
  "is_digit c = (let n = (of_char c :: nat) in 48 \<le> n \<and> n \<le> 57)"

definition digit_val :: "char \<Rightarrow> nat" where
  "digit_val c = of_char c - 48"

fun parse_digits :: "nat \<Rightarrow> string \<Rightarrow> nat option" where
  "parse_digits acc [] = Some acc"
| "parse_digits acc [c] = (if is_digit c then Some (acc * 10 + digit_val c) else None)"
| "parse_digits acc (c # d # ds) =
     (if is_digit c then parse_digits (acc * 10 + digit_val c) (d # ds)
      else if c = CHR ''_'' \<and> is_digit d then parse_digits (acc * 10 + digit_val d) ds
      else None)"

definition parse_unsigned :: "string \<Rightarrow> nat option" where
  "parse_unsigned s =
     (case s of
        [] \<Rightarrow> None
      | c # cs \<Rightarrow> if is_digit c then parse_digits (digit_val c) cs else None)"

definition py_int :: "string \<Rightarrow> exn + int" where
  "py_int s =
     (let t = dropWhile is_int_space (rev (dropWhile is_int_space (rev s)));
          r = (case t of
                 [] \<Rightarrow> None
               | c # cs \<Rightarrow>
                   if c = CHR ''-'' then map_option (\<lambda>n. - int n) (parse_unsigned cs)
                   else if c = CHR ''+'' then map_option int (parse_unsigned cs)
                   else map_option int (parse_unsigned t))
      in case r of
           None \<Rightarrow> Inl (ValueError ''invalid literal for int() with base 10'')
         | Some n \<Rightarrow> Inr n)"



section \<open>Parameter parsing of \<open>api/index.py\<close>\<close>

text \<open>\<open>_parse_fields\<close>, lines 25 to 28. \<open>not raw\<close> holds of \<open>None\<close> and of the empty string.\<close>

definition parse_fields :: "string option \<Rightarrow> string list" where
  "parse_fields raw =
     (case raw of
        None \<Rightarrow> []
      | Some r \<Rightarrow>
          if r = [] then []
          else map strip (filter (\<lambda>field. strip field \<noteq> []) (split_comma r)))"

text \<open>
  \<open>_parse_int\<close>, lines 31 to 37. The \<open>try\<close> catches \<open>ValueError\<close> alone; another
  exception of \<open>int\<close> would leave the function.
\<close>

definition parse_int :: "string option \<Rightarrow> int \<Rightarrow> exn + int" where
  "parse_int value dflt =
     (case value of
        None \<Rightarrow> Inr dflt
      | Some v \<Rightarrow>
          if v = [] then Inr dflt
          else (case py_int v of
                  Inr n \<Rightarrow> Inr n
                | Inl (ValueError m) \<Rightarrow> Inr dflt
                | Inl e \<Rightarrow> Inl e))"

text \<open>\<open>GPlayScraperUI._split_fields\<close> of \<open>examples/ui_app.py\<close>, lines 434 to 436.\<close>

definition split_fields :: "string \<Rightarrow> string list" where
  "split_fields raw = map strip (filter (\<lambda>field. strip field \<noteq> []) (split_comma raw))"

section \<open>The external service\<close>

text \<open>
  \<open>GPlayScraper\<close> and \<open>Config\<close> come from the \<open>gplay_scraper\<close> package, which is not
  part of these sources. A call of one of the eight scraper methods is a value of
  \<open>scraper_call\<close> carrying the arguments in the order the code passes them; the service
  itself is a parameter: any function from a call to the payload it returns or the
  exception it raises. The payload is a type parameter, taken to be a value that
  \<open>json.dumps\<close> accepts. The constants of \<open>Config\<close> are the fields of a parameter \<open>cfg\<close>.
\<close>

datatype scraper_call =
    App_analyze string string string "string option"
  | App_get_fields string "string list" string string "string option"
  | Search_analyze string int string string
  | Search_get_fields string "string list" int string string
  | Reviews_analyze string int string string string
  | Reviews_get_fields string "string list" int string string string
  | Developer_analyze string int string string
  | Developer_get_fields string "string list" int string string

type_synonym 'd scraper = "scraper_call \<Rightarrow> exn + 'd"

record config =
  DEFAULT_LANGUAGE :: string
  DEFAULT_COUNTRY :: string
  DEFAULT_SEARCH_COUNT :: int
  DEFAULT_REVIEWS_COUNT :: int
  DEFAULT_DEVELOPER_COUNT :: int
  DEFAULT_REVIEWS_SORT :: string

text \<open>Which of the two operations a call is, and the arguments it carries.\<close>

fun is_get_fields :: "scraper_call \<Rightarrow> bool" where
  "is_get_fields (App_get_fields i fs l c a) = True"
| "is_get_fields (Search_get_fields q fs n l c) = True"
| "is_get_fields (Reviews_get_fields i fs n l c s) = True"
| "is_get_fields (Developer_get_fields i fs n l c) = True"
| "is_get_fields other = False"

fun is_analyze :: "scraper_call \<Rightarrow> bool" where
  "is_analyze (App_analyze i l c a) = True"
| "is_analyze (Search_analyze q n l c) = True"
| "is_analyze (Reviews_analyze i n l c s) = True"
| "is_analyze (Developer_analyze i n l c) = True"
| "is_analyze other = False"

fun call_action :: "scraper_call \<Rightarrow> string" where
  "call_action (App_analyze i l c a) = ''app''"
| "call_action (App_get_fields i fs l c a) = ''app''"
| "call_action (Search_analyze q n l c) = ''search''"
| "call_action (Search_get_fields q fs n l c) = ''search''"
| "call_action (Reviews_analyze i n l c s) = ''reviews''"
| "call_action (Reviews_get_fields i fs n l c s) = ''reviews''"
| "call_action (Developer_analyze i n l c) = ''developer''"
| "call_action (Developer_get_fields i fs n l c) = ''developer''"

fun call_identifier :: "scraper_call \<Rightarrow> string" where
  "call_identifier (App_analyze i l c a) = i"
| "call_identifier (App_get_fields i fs l c a) = i"
| "call_identifier (Search_analyze q n l c) = q"
| "call_identifier (Search_get_fields q fs n l c) = q"
| "call_identifier (Reviews_analyze i n l c s) = i"
| "call_identifier (Reviews_get_fields i fs n l c s) = i"
| "call_identifier (Developer_analyze i n l c) = i"
| "call_identifier (Developer_get_fields i fs n l c) = i"

fun call_fields :: "scraper_call \<Rightarrow> string list" where
  "call_fields (App_get_fields i fs l c a) = fs"
| "call_fields (Search_get_fields q fs n l c) = fs"
| "call_fields (Reviews_get_fields i fs n l c s) = fs"
| "call_fields (Developer_get_fields i fs n l c) = fs"
| "call_fields other = []"

fun call_count :: "scraper_call \<Rightarrow> int option" where
  "call_count (Search_analyze q n l c) = Some n"
| "call_count (Search_get_fields q fs n l c) = Some n"
| "call_count (Reviews_analyze i n l c s) = Some n"
| "call_count (Reviews_get_fields i fs n l c s) = Some n"
| "call_count (Developer_analyze i n l c) = Some n"
| "call_count (Developer_get_fields i fs n l c) = Some n"
| "call_count other = None"

fun call_lang :: "scraper_call \<Rightarrow> string" where
  "call_lang (App_analyze i l c a) = l"
| "call_lang (App_get_fields i fs l c a) = l"
| "call_lang (Search_analyze q n l c) = l"
| "call_lang (Search_get_fields q fs n l c) = l"
| "call_lang (Reviews_analyze i n l c s) = l"
| "call_lang (Reviews_get_fields i fs n l c s) = l"
| "call_lang (Developer_analyze i n l c) = l"
| "call_lang (Developer_get_fields i fs n l c) = l"

fun call_country :: "scraper_call \<Rightarrow> string" where
  "call_country (App_analyze i l c a) = c"
| "call_country (App_get_fields i fs l c a) = c"
| "call_country (Search_analyze q n l c) = c"
| "call_country (Search_get_fields q fs n l c) = c"
| "call_country (Reviews_analyze i n l c s) = c"
| "call_country (Reviews_get_fields i fs n l c s) = c"
| "call_country (Developer_analyze i n l c) = c"
| "call_country (Developer_get_fields i fs n l c) = c"

fun call_sort :: "scraper_call \<Rightarrow> string option" where
  "call_sort (Reviews_analyze i n l c s) = Some s"
| "call_sort (Reviews_get_fields i fs n l c s) = Some s"
| "call_sort other = None"

fun call_assets :: "scraper_call \<Rightarrow> string option" where
  "call_assets (App_analyze i l c a) = a"
| "call_assets (App_get_fields i fs l c a) = a"
| "call_assets other = None"

section \<open>The handlers of \<open>api/index.py\<close>\<close>

text \<open>
  \<open>request.args\<close> is a map from parameter names to strings. A JSON dictionary is the list
  of its items in insertion order; a value in it is a string or the service's payload. A
  handler returns the list of calls it made to the service, in order, and either the
  exception that left it or its \<open>(status, payload)\<close> pair.
\<close>

datatype 'd jval = JStr string | JData 'd

type_synonym 'd json_dict = "(string \<times> 'd jval) list"

type_synonym 'd handler_result = "scraper_call list \<times> (exn + int \<times> 'd json_dict)"

text \<open>\<open>args.get(key, default)\<close>: the default stands in for a missing key only.\<close>

definition get_or :: "(string \<rightharpoonup> string) \<Rightarrow> string \<Rightarrow> string \<Rightarrow> string" where
  "get_or args key dflt = (case args key of None \<Rightarrow> dflt | Some v \<Rightarrow> v)"

text \<open>\<open>args.get(key) or None\<close>: \<open>None\<close> for a missing key and for the empty string.\<close>

definition get_or_none :: "(string \<rightharpoonup> string) \<Rightarrow> string \<Rightarrow> string option" where
  "get_or_none args key =
     (case args key of None \<Rightarrow> None | Some v \<Rightarrow> if v = [] then None else Some v)"

text \<open>The message \<open>Missing required '<name>' parameter.\<close> of the four handlers.\<close>

definition missing_required :: "string \<Rightarrow> 'd json_dict" where
  "missing_required name =
     [(''error'', JStr (''Missing required '' @ [CHR 0x27] @ name @ [CHR 0x27] @ '' parameter.''))]"

text \<open>
  One call of the service followed by \<open>return 200, {"data": data}\<close>; an exception of the
  call leaves the handler.
\<close>

definition call_scraper :: "'d scraper \<Rightarrow> scraper_call \<Rightarrow> 'd handler_result" where
  "call_scraper scraper c =
     ([c], case scraper c of
             Inl e \<Rightarrow> Inl e
           | Inr data \<Rightarrow> Inr (200, [(''data'', JData data)]))"

text \<open>\<open>_handle_app\<close>, lines 40 to 54.\<close>

definition handle_app :: "'d scraper \<Rightarrow> config \<Rightarrow> (string \<rightharpoonup> string) \<Rightarrow> 'd handler_result" where
  "handle_app scraper cfg args =
     (case args ''appId'' of
        None \<Rightarrow> ([], Inr (400, missing_required ''appId''))
      | Some app_id \<Rightarrow>
          if app_id = [] then ([], Inr (400, missing_required ''appId''))
          else
            let lang = get_or args ''lang'' (DEFAULT_LANGUAGE cfg);
                country = get_or args ''country'' (DEFAULT_COUNTRY cfg);
                assets = get_or_none args ''assets'';
                fields = parse_fields (args ''fields'')
            in if fields \<noteq> []
               then call_scraper scraper (App_get_fields app_id fields lang country assets)
               else call_scraper scraper (App_analyze app_id lang country assets))"

text \<open>\<open>_handle_search\<close>, lines 57 to 71.\<close>

definition handle_search :: "'d scraper \<Rightarrow> config \<Rightarrow> (string \<rightharpoonup> string) \<Rightarrow> 'd handler_result" where
  "handle_search scraper cfg args =
     (case args ''query'' of
        None \<Rightarrow> ([], Inr (400, missing_required ''query''))
      | Some query \<Rightarrow>
          if query = [] then ([], Inr (400, missing_required ''query''))
          else
            (case parse_int (args ''count'') (DEFAULT_SEARCH_COUNT cfg) of
               Inl e \<Rightarrow> ([], Inl e)
             | Inr count \<Rightarrow>
                 let lang = get_or args ''lang'' (DEFAULT_LANGUAGE cfg);
                     country = get_or args ''country'' (DEFAULT_COUNTRY cfg);
                     fields = parse_fields (args ''fields'')
                 in if fields \<noteq> []
                    then call_scraper scraper (Search_get_fields query fields count lang country)
                    else call_scraper scraper (Search_analyze query count lang country)))"

text \<open>\<open>_handle_reviews\<close>, lines 74 to 89.\<close>

definition handle_reviews :: "'d scraper \<Rightarrow> config \<Rightarrow> (string \<rightharpoonup> string) \<Rightarrow> 'd handler_result" where
  "handle_reviews scraper cfg args =
     (case args ''appId'' of
        None \<Rightarrow> ([], Inr (400, missing_required ''appId''))
      | Some app_id \<Rightarrow>
          if app_id = [] then ([], Inr (400, missing_required ''appId''))
          else
            (case parse_int (args ''count'') (DEFAULT_REVIEWS_COUNT cfg) of
               Inl e \<Rightarrow> ([], Inl e)
             | Inr count \<Rightarrow>
                 let lang = get_or args ''lang'' (DEFAULT_LANGUAGE cfg);
                     country = get_or args ''country'' (DEFAULT_COUNTRY cfg);
                     sort = get_or args ''sort'' (DEFAULT_REVIEWS_SORT cfg);
                     fields = parse_fields (args ''fields'')
                 in if fields \<noteq> []
                    then call_scraper scraper
                           (Reviews_get_fields app_id fields count lang country sort)
                    else call_scraper scraper (Reviews_analyze app_id count lang country sort)))"

text \<open>\<open>_handle_developer\<close>, lines 92 to 106.\<close>

definition handle_developer :: "'d scraper \<Rightarrow> config \<Rightarrow> (string \<rightharpoonup> string) \<Rightarrow> 'd handler_result" where
  "handle_developer scraper cfg args =
     (case args ''developerId'' of
        None \<Rightarrow> ([], Inr (400, missing_required ''developerId''))
      | Some developer_id \<Rightarrow>
          if developer_id = [] then ([], Inr (400, missing_required ''developerId''))
          else
            (case parse_int (args ''count'') (DEFAULT_DEVELOPER_COUNT cfg) of
               Inl e \<Rightarrow> ([], Inl e)
             | Inr count \<Rightarrow>
                 let lang = get_or args ''lang'' (DEFAULT_LANGUAGE cfg);
                     country = get_or args ''country'' (DEFAULT_COUNTRY cfg);
                     fields = parse_fields (args ''fields'')
                 in if fields \<noteq> []
                    then call_scraper scraper
                           (Developer_get_fields developer_id fields count lang country)
                    else call_scraper scraper (Developer_analyze developer_id count lang country)))"

text \<open>\<open>ACTION_MAP\<close>, lines 109 to 114, with \<open>ACTION_MAP.get(action)\<close> as application.\<close>

definition ACTION_MAP ::
  "string \<Rightarrow> ('d scraper \<Rightarrow> config \<Rightarrow> (string \<rightharpoonup> string) \<Rightarrow> 'd handler_result) option" where
  "ACTION_MAP action =
     (if action = ''app'' then Some handle_app
      else if action = ''search'' then Some handle_search
      else if action = ''reviews'' then Some handle_reviews
      else if action = ''developer'' then Some handle_developer
      else None)"

section \<open>The entry point \<open>handler\<close>\<close>

text \<open>
  \<open>dict.update\<close> on a dictionary kept as its item list: a key already there keeps its
  place and takes the new value, a new key goes to the end.
\<close>

fun dict_set :: "'k \<Rightarrow> 'v \<Rightarrow> ('k \<times> 'v) list \<Rightarrow> ('k \<times> 'v) list" where
  "dict_set k v [] = [(k, v)]"
| "dict_set k v (p # ps) = (if fst p = k then (k, v) # ps else p # dict_set k v ps)"

definition dict_update :: "('k \<times> 'v) list \<Rightarrow> ('k \<times> 'v) list \<Rightarrow> ('k \<times> 'v) list" where
  "dict_update d extra = fold (\<lambda>p. dict_set (fst p) (snd p)) extra d"

text \<open>
  \<open>_build_response\<close>, lines 151 to 156. The body is the JSON text of the payload; the
  model keeps the dictionary that \<open>json.dumps\<close> renders.
\<close>

record 'd response =
  body :: "'d json_dict"
  status :: int
  headers :: "(string \<times> string) list"

definition build_response ::
  "int \<Rightarrow> 'd json_dict \<Rightarrow> (string \<times> string) list option \<Rightarrow> 'd response" where
  "build_response st payload extra_headers =
     (let hs = [(''Content-Type'', ''application/json''), (''Access-Control-Allow-Origin'', ''*'')];
          hs' = (case extra_headers of
                   None \<Rightarrow> hs
                 | Some extra \<Rightarrow> if extra = [] then hs else dict_update hs extra)
      in \<lparr>body = payload, status = st, headers = hs'\<rparr>)"


text \<open>
  The \<open>try\<close> statement of \<open>handler\<close>, lines 139 to 148, applied to what the chosen
  handler did: its result goes through, \<open>GPlayScraperError\<close> becomes 502 and every other
  exception 500.
\<close>

fun respond :: "'d handler_result \<Rightarrow> scraper_call list \<times> (exn + 'd response)" where
  "respond (calls, Inr (st, payload)) = (calls, Inr (build_response st payload None))"
| "respond (calls, Inl (GPlayScraperError m)) =
     (calls, Inr (build_response 502 [(''error'', JStr m)] None))"
| "respond (calls, Inl exc) =
     (calls, Inr (build_response 500
                    [(''error'', JStr ''Unexpected server error.''),
                     (''details'', JStr (str_exc exc))] None))"

text \<open>
  \<open>dispatch\<close> is the routing part of \<open>handler\<close>, lines 131 to 148: everything after the
  pre-flight check. It returns the calls made to the service and either an exception that
  leaves the function or the response.
\<close>

definition dispatch ::
  "'d scraper \<Rightarrow> config \<Rightarrow> (string \<rightharpoonup> string) \<Rightarrow> scraper_call list \<times> (exn + 'd response)" where
  "dispatch scraper cfg args =
     (let action = lower (case args ''action'' of None \<Rightarrow> [] | Some a \<Rightarrow> a)
      in if action = []
         then ([], Inr (build_response 400
                          [(''error'', JStr ''Missing 'action' query parameter.'')] None))
         else
           (case ACTION_MAP action of
              None \<Rightarrow>
                ([], Inr (build_response 400
                            [(''error'', JStr (''Unsupported action '' @ [CHR 0x27] @ action
                                               @ [CHR 0x27] @ ''.''))] None))
            | Some handler_fn \<Rightarrow> respond (handler_fn scraper cfg args)))"


section \<open>The interactive front end \<open>examples/ui_app.py\<close>\<close>

text \<open>
  What the window shows is a record: the status line, the result viewer (the payloads
  inserted, newest first, each standing for its \<open>json.dumps\<close> text), the message boxes
  shown so far and the worker threads started so far, each named by the scraper call it
  wraps.
\<close>

datatype dialog = Showinfo string string | Showerror string string

record 'd ui =
  status_var :: string
  result_text :: "'d list"
  dialogs :: "dialog list"
  threads :: "scraper_call list"

text \<open>\<open>_set_status\<close>, \<open>_clear_results\<close>, \<open>_display_result\<close> and \<open>_show_error\<close>.\<close>

definition set_status :: "string \<Rightarrow> 'd ui \<Rightarrow> 'd ui" where
  "set_status message u = u\<lparr>status_var := message\<rparr>"

definition clear_results :: "'d ui \<Rightarrow> 'd ui" where
  "clear_results u = u\<lparr>result_text := []\<rparr>"

definition display_result :: "'d \<Rightarrow> 'd ui \<Rightarrow> 'd ui" where
  "display_result data u = u\<lparr>result_text := data # result_text u\<rparr>"

definition show_error :: "string \<Rightarrow> 'd ui \<Rightarrow> 'd ui" where
  "show_error message u =
     (let u' = set_status ''Error'' u
      in u'\<lparr>dialogs := dialogs u' @ [Showerror ''GPlay Scraper'' message]\<rparr>)"

text \<open>\<open>_handle_success\<close> and \<open>_handle_error\<close>, lines 407 to 412.\<close>

definition handle_success :: "'d \<Rightarrow> 'd ui \<Rightarrow> 'd ui" where
  "handle_success data u = set_status ''Finished'' (display_result data u)"

definition handle_error :: "string \<Rightarrow> 'd ui \<Rightarrow> 'd ui" where
  "handle_error message u = show_error message u"

text \<open>
  \<open>_run_async\<close>, lines 391 to 405, on the presentation side: the status, the cleared
  viewer and the started thread.
\<close>

definition run_async :: "scraper_call \<Rightarrow> 'd ui \<Rightarrow> 'd ui" where
  "run_async c u =
     (let u' = clear_results (set_status ''Running...'' u)
      in u'\<lparr>threads := threads u' @ [c]\<rparr>)"

definition fields_required :: "'d ui \<Rightarrow> 'd ui" where
  "fields_required u =
     u\<lparr>dialogs := dialogs u
          @ [Showinfo ''Fields Required'' ''Please provide at least one field name.'']\<rparr>"

text \<open>
  The four \<open>Get Fields\<close> handlers, lines 302 to 386; \<open>field_list\<close> is their
  parameter \<open>fields\<close> and \<open>sort_order\<close> the parameter \<open>sort\<close>.
\<close>

definition handle_app_fields ::
  "string \<Rightarrow> string list \<Rightarrow> string \<Rightarrow> string \<Rightarrow> string option \<Rightarrow> 'd ui \<Rightarrow> 'd ui" where
  "handle_app_fields app_id field_list lang country assets u =
     (if field_list = [] then fields_required u
      else run_async (App_get_fields app_id field_list lang country assets) u)"

definition handle_search_fields ::
  "string \<Rightarrow> string list \<Rightarrow> int \<Rightarrow> string \<Rightarrow> string \<Rightarrow> 'd ui \<Rightarrow> 'd ui" where
  "handle_search_fields query field_list count lang country u =
     (if field_list = [] then fields_required u
      else run_async (Search_get_fields query field_list count lang country) u)"

definition handle_reviews_fields ::
  "string \<Rightarrow> string list \<Rightarrow> int \<Rightarrow> string \<Rightarrow> string \<Rightarrow> string \<Rightarrow> 'd ui \<Rightarrow> 'd ui" where
  "handle_reviews_fields app_id field_list count lang country sort_order u =
     (if field_list = [] then fields_required u
      else run_async (Reviews_get_fields app_id field_list count lang country sort_order) u)"

definition handle_developer_fields ::
  "string \<Rightarrow> string list \<Rightarrow> int \<Rightarrow> string \<Rightarrow> string \<Rightarrow> 'd ui \<Rightarrow> 'd ui" where
  "handle_developer_fields dev_id field_list count lang country u =
     (if field_list = [] then fields_required u
      else run_async (Developer_get_fields dev_id field_list count lang country) u)"

subsection \<open>The worker and the delivery of its callback\<close>

text \<open>
  The nested function \<open>task\<close> of \<open>_run_async\<close> runs on the worker thread. Each of its three
  branches hands one \<open>lambda\<close> to \<open>root.after\<close>. The success callback closes over \<open>data\<close>,
  which stays bound. The two error callbacks close over \<open>exc\<close>, the name of their
  \<open>except ... as exc\<close> clause, and read it only when they are called: the f-string is the
  body of the \<open>lambda\<close>. Python unbinds that name when the clause ends, and reading an
  unbound free variable raises \<open>NameError\<close>. So the worker has two steps: \<open>task_enter\<close>
  up to the return of \<open>root.after\<close>, with \<open>exc\<close> bound, and \<open>task_exit\<close>, the end of the
  clause.
\<close>

datatype 'd callback =
    Success_callback 'd
  | Scraper_error_callback
  | Unexpected_error_callback

record 'd worker =
  after_queue :: "'d callback list"
  exc_cell :: "exn option"

definition task_enter :: "'d scraper \<Rightarrow> scraper_call \<Rightarrow> 'd worker" where
  "task_enter scraper c =
     (case scraper c of
        Inl (GPlayScraperError m) \<Rightarrow>
          \<lparr>after_queue = [Scraper_error_callback], exc_cell = Some (GPlayScraperError m)\<rparr>
      | Inl e \<Rightarrow> \<lparr>after_queue = [Unexpected_error_callback], exc_cell = Some e\<rparr>
      | Inr data \<Rightarrow> \<lparr>after_queue = [Success_callback data], exc_cell = None\<rparr>)"

definition task_exit :: "'d worker \<Rightarrow> 'd worker" where
  "task_exit w = w\<lparr>exc_cell := None\<rparr>"

text \<open>
  Calling a queued callback on the presentation thread, with the binding \<open>exc\<close> has at
  that moment. An exception of the callback leaves the window as it was.
\<close>

definition unbound_exc :: exn where
  "unbound_exc = NameError ''cannot access free variable 'exc' where it is not associated with a value in enclosing scope''"

definition run_callback :: "exn option \<Rightarrow> 'd callback \<Rightarrow> 'd ui \<Rightarrow> exn + 'd ui" where
  "run_callback cell cb u =
     (case cb of
        Success_callback data \<Rightarrow> Inr (handle_success data u)
      | Scraper_error_callback \<Rightarrow>
          (case cell of
             None \<Rightarrow> Inl unbound_exc
           | Some e \<Rightarrow> Inr (handle_error (''Scraper error: '' @ str_exc e) u))
      | Unexpected_error_callback \<Rightarrow>
          (case cell of
             None \<Rightarrow> Inl unbound_exc
           | Some e \<Rightarrow> Inr (handle_error (''Unexpected error: '' @ str_exc e) u)))"

fun deliver :: "'d worker \<Rightarrow> 'd ui \<Rightarrow> (exn + 'd ui) list" where
  "deliver w u = map (\<lambda>cb. run_callback (exc_cell w) cb u) (after_queue w)"

text \<open>
  One run from the button to the delivery. The event loop calls the callback either while
  the worker is still inside its \<open>except\<close> clause or after the worker has left it; the
  two threads race, and the schedule says which of them wins.
\<close>

datatype schedule = Callback_before_clause_end | Callback_after_clause_end

definition run :: "'d scraper \<Rightarrow> scraper_call \<Rightarrow> schedule \<Rightarrow> 'd ui \<Rightarrow> (exn + 'd ui) list" where
  "run scraper c sched u =
     (let u' = run_async c u;
          w = task_enter scraper c
      in case sched of
           Callback_before_clause_end \<Rightarrow> deliver w u'
         | Callback_after_clause_end \<Rightarrow> deliver (task_exit w) u')"

section \<open>Splitting and trimming\<close>

lemma split_comma_not_Nil: "split_comma s \<noteq> []"
  by (induction s) (simp_all split: list.split)

lemma join_split_comma: "join_comma (split_comma s) = s"
proof (induction s)
  case Nil
  show ?case by simp
next
  case (Cons c cs)
  obtain w ws where sp: "split_comma cs = w # ws"
    using split_comma_not_Nil [of cs] by (cases "split_comma cs") auto
  have j: "join_comma (w # ws) = cs"
    using Cons sp by simp
  show ?case
  proof (cases "c = CHR '',''")
    case True
    with j sp show ?thesis by simp
  next
    case False
    have "join_comma ((c # w) # ws) = c # join_comma (w # ws)"
      by (cases ws) simp_all
    with False j sp show ?thesis by simp
  qed
qed

lemma split_comma_chars: "(\<Union>w\<in>set (split_comma s). set w) = set s - {CHR '',''}"
proof (induction s)
  case Nil
  show ?case by simp
next
  case (Cons c cs)
  obtain w ws where sp: "split_comma cs = w # ws"
    using split_comma_not_Nil [of cs] by (cases "split_comma cs") auto
  have ih: "set w \<union> (\<Union>v\<in>set ws. set v) = set cs - {CHR '',''}"
    using Cons sp by simp
  show ?case
  proof (cases "c = CHR '',''")
    case True
    then have "(\<Union>v\<in>set (split_comma (c # cs)). set v) = set w \<union> (\<Union>v\<in>set ws. set v)"
      using sp by simp
    with ih True show ?thesis by auto
  next
    case False
    then have "(\<Union>v\<in>set (split_comma (c # cs)). set v)
                 = insert c (set w \<union> (\<Union>v\<in>set ws. set v))"
      using sp by simp
    with ih False show ?thesis by auto
  qed
qed

lemma split_comma_no_comma: "w \<in> set (split_comma s) \<Longrightarrow> CHR '','' \<notin> set w"
  using split_comma_chars [of s] by blast

lemma strip_Nil: "strip [] = []"
  by (simp add: strip_def)

lemma strip_eq_dropWhile: "strip s = dropWhile is_space (rev (dropWhile is_space (rev s)))"
  by (simp add: strip_def)

lemma strip_empty_iff: "strip s = [] \<longleftrightarrow> (\<forall>c\<in>set s. is_space c)"
proof
  assume e: "strip s = []"
  define t where "t = dropWhile is_space (rev s)"
  have st: "strip s = dropWhile is_space (rev t)"
    by (simp add: strip_def t_def)
  have "t = []"
  proof (rule ccontr)
    assume n: "t \<noteq> []"
    then have "\<not> is_space (hd t)"
      unfolding t_def by (rule hd_dropWhile)
    moreover have "hd t \<in> set (rev t)"
      using n by simp
    moreover have "\<forall>c\<in>set (rev t). is_space c"
      using e st by (simp add: dropWhile_eq_Nil_conv)
    ultimately show False by blast
  qed
  then show "\<forall>c\<in>set s. is_space c"
    by (simp add: t_def dropWhile_eq_Nil_conv)
next
  assume a: "\<forall>c\<in>set s. is_space c"
  have "set (rev (dropWhile is_space (rev s))) \<subseteq> set s"
    by (auto dest: set_dropWhileD)
  with a show "strip s = []"
    by (auto simp: strip_def dropWhile_eq_Nil_conv)
qed

lemma strip_decomp:
  "\<exists>l r. s = l @ strip s @ r \<and> (\<forall>c\<in>set l. is_space c) \<and> (\<forall>c\<in>set r. is_space c)"
proof -
  define t where "t = rev (dropWhile is_space (rev s))"
  define r where "r = rev (takeWhile is_space (rev s))"
  define l where "l = takeWhile is_space t"
  have "t @ r = rev (takeWhile is_space (rev s) @ dropWhile is_space (rev s))"
    unfolding t_def r_def by (simp only: rev_append)
  also have "\<dots> = s"
    by simp
  finally have s: "s = t @ r"
    by simp
  have t: "t = l @ strip s"
    by (simp add: l_def strip_def t_def)
  have "\<forall>c\<in>set l. is_space c"
    unfolding l_def by (auto dest: set_takeWhileD)
  moreover have "\<forall>c\<in>set r. is_space c"
    unfolding r_def by (auto dest: set_takeWhileD)
  moreover have "s = l @ strip s @ r"
    using s t by simp
  ultimately show ?thesis
    by blast
qed

lemma strip_ends:
  assumes "strip s \<noteq> []"
  shows "\<not> is_space (hd (strip s))" and "\<not> is_space (last (strip s))"
proof -
  show "\<not> is_space (hd (strip s))"
    using assms unfolding strip_def by (rule hd_dropWhile)
  define d where "d = dropWhile is_space (rev s)"
  have st: "strip s = dropWhile is_space (rev d)"
    by (simp add: strip_def d_def)
  have dn: "d \<noteq> []"
    using assms st by auto
  then have "\<not> is_space (hd d)"
    unfolding d_def by (rule hd_dropWhile)
  then have lt: "\<not> is_space (last (rev d))"
    using dn by (simp add: last_rev)
  have "rev d = takeWhile is_space (rev d) @ strip s"
    by (simp add: st)
  then have "last (rev d) = last (takeWhile is_space (rev d) @ strip s)"
    by simp
  also have "\<dots> = last (strip s)"
    using assms by simp
  finally show "\<not> is_space (last (strip s))"
    using lt by simp
qed

lemma strip_idem: "strip (strip s) = strip s"
proof (cases "strip s = []")
  case True
  then show ?thesis by (simp add: strip_Nil)
next
  case False
  have l: "\<not> is_space (last (strip s))" and h: "\<not> is_space (hd (strip s))"
    using strip_ends [OF False] by simp_all
  have "\<not> is_space (hd (rev (strip s)))"
    using False l by (simp add: hd_rev)
  then have "dropWhile is_space (rev (strip s)) = rev (strip s)"
    using False by (cases "rev (strip s)") simp_all
  moreover have "dropWhile is_space (strip s) = strip s"
    using False h by (cases "strip s") simp_all
  ultimately show ?thesis
    by (simp add: strip_eq_dropWhile [of "strip s"])
qed

lemma split_fields_empty_iff:
  "split_fields raw = [] \<longleftrightarrow> (\<forall>c\<in>set raw. c = CHR '','' \<or> is_space c)"
proof -
  have "split_fields raw = [] \<longleftrightarrow> (\<forall>w\<in>set (split_comma raw). strip w = [])"
    by (auto simp: split_fields_def filter_empty_conv)
  also have "\<dots> \<longleftrightarrow> (\<forall>c\<in>(\<Union>w\<in>set (split_comma raw). set w). is_space c)"
    by (auto simp: strip_empty_iff)
  also have "\<dots> \<longleftrightarrow> (\<forall>c\<in>set raw. c = CHR '','' \<or> is_space c)"
    unfolding split_comma_chars by auto
  finally show ?thesis .
qed

lemma parse_fields_split_fields:
  "parse_fields (Some raw) = split_fields raw"
  by (simp add: parse_fields_def split_fields_def strip_Nil)

section \<open>The front end asks for fields before it starts a run\<close>

text \<open>
  C10. In the interactive front end, a \<open>Get Fields\<close> invocation whose fields input parses
  to the empty list starts no run and calls no service operation: each of the four
  handlers only shows the information box \<open>Fields Required\<close> and returns. The list of
  started threads, the status line and the result viewer stay as they were; there is no
  fall-back to the full analysis.
\<close>

theorem get_fields_without_fields_starts_no_run:
  assumes "split_fields raw = []"
  shows "handle_app_fields app_id (split_fields raw) lang country assets u = fields_required u
       \<and> handle_search_fields query (split_fields raw) n lang country u = fields_required u
       \<and> handle_reviews_fields app_id (split_fields raw) n lang country sort_order u
           = fields_required u
       \<and> handle_developer_fields dev_id (split_fields raw) n lang country u = fields_required u
       \<and> threads (fields_required u) = threads u
       \<and> status_var (fields_required u) = status_var u
       \<and> result_text (fields_required u) = result_text u
       \<and> dialogs (fields_required u)
           = dialogs u @ [Showinfo ''Fields Required'' ''Please provide at least one field name.'']"
  using assms
  by (simp add: handle_app_fields_def handle_search_fields_def handle_reviews_fields_def
      handle_developer_fields_def fields_required_def)

theorem get_fields_without_fields_starts_no_run_witness:
  "split_fields '' , ,'' = []
   \<and> handle_app_fields ''com.whatsapp'' (split_fields '' , ,'') ''en'' ''us'' (Some ''SMALL'')
        \<lparr>status_var = ''Ready'', result_text = [] :: nat list, dialogs = [], threads = []\<rparr>
      = \<lparr>status_var = ''Ready'', result_text = [],
         dialogs = [Showinfo ''Fields Required'' ''Please provide at least one field name.''],
         threads = []\<rparr>"
proof -
  have h: "split_fields '' , ,'' = []"
    by (simp add: split_fields_def strip_def is_space_def)
  show ?thesis
    using h get_fields_without_fields_starts_no_run [OF h, of "''com.whatsapp''" "''en''" "''us''"
        "Some ''SMALL''" "\<lparr>status_var = ''Ready'', result_text = [] :: nat list, dialogs = [], threads = []\<rparr>"]
    by (simp add: fields_required_def)
qed

section \<open>Field lists\<close>

text \<open>
  C4, as amended. Field-list parsing splits the raw string on commas (the segments joined by
  commas give the string back and hold no comma), trims each segment, drops the segments
  that are empty after trimming and keeps the others in their order, duplicates included;
  absent input gives the empty list. On \<open>"a,, b ,a"\<close> the result is \<open>["a", "b", "a"]\<close>.
\<close>

theorem parse_fields_trims_and_keeps_duplicates:
  "parse_fields None = []
   \<and> parse_fields (Some raw) = filter (\<lambda>f. f \<noteq> []) (map strip (split_comma raw))
   \<and> join_comma (split_comma raw) = raw
   \<and> (\<forall>w\<in>set (split_comma raw). CHR '','' \<notin> set w)
   \<and> (\<forall>f\<in>set (parse_fields v). f \<noteq> [] \<and> strip f = f)
   \<and> parse_fields (Some ''a,, b ,a'') = [''a'', ''b'', ''a'']"
proof -
  have a: "parse_fields None = []"
    by (simp add: parse_fields_def)
  have b: "parse_fields (Some raw) = filter (\<lambda>f. f \<noteq> []) (map strip (split_comma raw))"
    by (simp add: parse_fields_def strip_Nil filter_map comp_def)
  have c: "\<forall>w\<in>set (split_comma raw). CHR '','' \<notin> set w"
    by (simp add: split_comma_no_comma)
  have d: "\<forall>f\<in>set (parse_fields v). f \<noteq> [] \<and> strip f = f"
    by (cases v) (auto simp: parse_fields_def strip_idem)
  have e: "parse_fields (Some ''a,, b ,a'') = [''a'', ''b'', ''a'']"
    by (simp add: parse_fields_def strip_def is_space_def)
  show ?thesis
    by (intro conjI a b c d e join_split_comma)
qed

theorem parse_fields_trims_and_keeps_duplicates_witness:
  "''text'' \<in> set (parse_fields (Some ''score, text''))
   \<and> ''text'' \<noteq> [] \<and> strip ''text'' = ''text''
   \<and> ''score'' \<in> set (split_comma ''score, text'')
   \<and> CHR '','' \<notin> set ''score''"
proof -
  have m: "''text'' \<in> set (parse_fields (Some ''score, text''))"
    by (simp add: parse_fields_def strip_def is_space_def)
  have n: "''score'' \<in> set (split_comma ''score, text'')"
    by simp
  note t = parse_fields_trims_and_keeps_duplicates [of "''score, text''" "Some ''score, text''"]
  have "\<forall>w\<in>set (split_comma ''score, text''). CHR '','' \<notin> set w"
    using t by (elim conjE)
  then have c: "CHR '','' \<notin> set ''score''"
    using n by (rule bspec)
  have "\<forall>f\<in>set (parse_fields (Some ''score, text'')). f \<noteq> [] \<and> strip f = f"
    using t by (elim conjE)
  then have "''text'' \<noteq> [] \<and> strip ''text'' = ''text''"
    using m by (rule bspec)
  with m n c show ?thesis
    by (intro conjI) (elim conjE, assumption)+
qed

theorem parse_fields_duplicate_counterexample:
  "parse_fields (Some ''a,, b ,a'') \<noteq> [''a'', ''b'']"
  by (simp add: parse_fields_def strip_def is_space_def)

section \<open>Counts\<close>












lemma py_int_raises_ValueError_only:
  "(\<exists>n. py_int s = Inr n) \<or> (\<exists>m. py_int s = Inl (ValueError m))"
  by (simp add: py_int_def Let_def split: option.split)




section \<open>Routing\<close>

lemma lower_char_idem: "lower_char (lower_char c) = lower_char c"
  by (auto simp: lower_char_def Let_def)

lemma lower_idem: "lower (lower s) = lower s"
  by (simp add: lower_def lower_char_idem)

lemma lower_Nil_iff: "lower s = [] \<longleftrightarrow> s = []"
  by (simp add: lower_def)


lemma parse_int_Inr: "\<exists>n. parse_int v d = Inr n"
proof (cases v)
  case None
  then show ?thesis by (simp add: parse_int_def)
next
  case (Some x)
  show ?thesis
    using py_int_raises_ValueError_only [of x] Some by (auto simp: parse_int_def)
qed

lemma dispatch_missing_action:
  "args ''action'' = None \<or> args ''action'' = Some [] \<Longrightarrow>
     dispatch scraper cfg args
       = ([], Inr (build_response 400
                     [(''error'', JStr ''Missing 'action' query parameter.'')] None))"
  by (auto simp: dispatch_def lower_def)

lemma dispatch_unsupported:
  assumes "args ''action'' = Some a" "a \<noteq> []"
    "lower a \<notin> {''app'', ''search'', ''reviews'', ''developer''}"
  shows "dispatch scraper cfg args
       = ([], Inr (build_response 400
                     [(''error'', JStr (''Unsupported action '' @ [CHR 0x27] @ lower a
                                        @ [CHR 0x27] @ ''.''))] None))"
  using assms by (simp add: dispatch_def ACTION_MAP_def lower_Nil_iff)

lemma dispatch_app:
  "args ''action'' = Some a \<Longrightarrow> lower a = ''app'' \<Longrightarrow>
     dispatch scraper cfg args = respond (handle_app scraper cfg args)"
  by (simp add: dispatch_def ACTION_MAP_def)

lemma dispatch_search:
  "args ''action'' = Some a \<Longrightarrow> lower a = ''search'' \<Longrightarrow>
     dispatch scraper cfg args = respond (handle_search scraper cfg args)"
  by (simp add: dispatch_def ACTION_MAP_def)

lemma dispatch_reviews:
  "args ''action'' = Some a \<Longrightarrow> lower a = ''reviews'' \<Longrightarrow>
     dispatch scraper cfg args = respond (handle_reviews scraper cfg args)"
  by (simp add: dispatch_def ACTION_MAP_def)

lemma dispatch_developer:
  "args ''action'' = Some a \<Longrightarrow> lower a = ''developer'' \<Longrightarrow>
     dispatch scraper cfg args = respond (handle_developer scraper cfg args)"
  by (simp add: dispatch_def ACTION_MAP_def)

lemma respond_call_scraper:
  "respond (call_scraper scraper c)
     = ([c], Inr (case scraper c of
                    Inr data \<Rightarrow> build_response 200 [(''data'', JData data)] None
                  | Inl (GPlayScraperError m) \<Rightarrow> build_response 502 [(''error'', JStr m)] None
                  | Inl e \<Rightarrow> build_response 500 [(''error'', JStr ''Unexpected server error.''),
                                                 (''details'', JStr (str_exc e))] None))"
  by (simp add: call_scraper_def split: sum.split exn.split)

lemma fst_respond: "fst (respond r) = fst r"
  by (induction r rule: respond.induct) simp_all

lemma fst_call_scraper: "fst (call_scraper scraper c) = [c]"
  by (simp add: call_scraper_def)

lemma handle_app_call:
  assumes "args ''appId'' = Some i" "i \<noteq> []"
  shows "handle_app scraper cfg args
       = call_scraper scraper
           (if parse_fields (args ''fields'') \<noteq> []
            then App_get_fields i (parse_fields (args ''fields''))
                   (get_or args ''lang'' (DEFAULT_LANGUAGE cfg))
                   (get_or args ''country'' (DEFAULT_COUNTRY cfg)) (get_or_none args ''assets'')
            else App_analyze i (get_or args ''lang'' (DEFAULT_LANGUAGE cfg))
                   (get_or args ''country'' (DEFAULT_COUNTRY cfg)) (get_or_none args ''assets''))"
  using assms by (simp add: handle_app_def Let_def)

lemma handle_search_call:
  assumes "args ''query'' = Some i" "i \<noteq> []"
    "parse_int (args ''count'') (DEFAULT_SEARCH_COUNT cfg) = Inr n"
  shows "handle_search scraper cfg args
       = call_scraper scraper
           (if parse_fields (args ''fields'') \<noteq> []
            then Search_get_fields i (parse_fields (args ''fields'')) n
                   (get_or args ''lang'' (DEFAULT_LANGUAGE cfg))
                   (get_or args ''country'' (DEFAULT_COUNTRY cfg))
            else Search_analyze i n (get_or args ''lang'' (DEFAULT_LANGUAGE cfg))
                   (get_or args ''country'' (DEFAULT_COUNTRY cfg)))"
  using assms by (simp add: handle_search_def Let_def)

lemma handle_reviews_call:
  assumes "args ''appId'' = Some i" "i \<noteq> []"
    "parse_int (args ''count'') (DEFAULT_REVIEWS_COUNT cfg) = Inr n"
  shows "handle_reviews scraper cfg args
       = call_scraper scraper
           (if parse_fields (args ''fields'') \<noteq> []
            then Reviews_get_fields i (parse_fields (args ''fields'')) n
                   (get_or args ''lang'' (DEFAULT_LANGUAGE cfg))
                   (get_or args ''country'' (DEFAULT_COUNTRY cfg))
                   (get_or args ''sort'' (DEFAULT_REVIEWS_SORT cfg))
            else Reviews_analyze i n (get_or args ''lang'' (DEFAULT_LANGUAGE cfg))
                   (get_or args ''country'' (DEFAULT_COUNTRY cfg))
                   (get_or args ''sort'' (DEFAULT_REVIEWS_SORT cfg)))"
  using assms by (simp add: handle_reviews_def Let_def)

lemma handle_developer_call:
  assumes "args ''developerId'' = Some i" "i \<noteq> []"
    "parse_int (args ''count'') (DEFAULT_DEVELOPER_COUNT cfg) = Inr n"
  shows "handle_developer scraper cfg args
       = call_scraper scraper
           (if parse_fields (args ''fields'') \<noteq> []
            then Developer_get_fields i (parse_fields (args ''fields'')) n
                   (get_or args ''lang'' (DEFAULT_LANGUAGE cfg))
                   (get_or args ''country'' (DEFAULT_COUNTRY cfg))
            else Developer_analyze i n (get_or args ''lang'' (DEFAULT_LANGUAGE cfg))
                   (get_or args ''country'' (DEFAULT_COUNTRY cfg)))"
  using assms by (simp add: handle_developer_def Let_def)


lemma handle_app_missing:
  "args ''appId'' = None \<or> args ''appId'' = Some [] \<Longrightarrow>
     handle_app scraper cfg args = ([], Inr (400, missing_required ''appId''))"
  by (auto simp: handle_app_def)

lemma handle_search_missing:
  "args ''query'' = None \<or> args ''query'' = Some [] \<Longrightarrow>
     handle_search scraper cfg args = ([], Inr (400, missing_required ''query''))"
  by (auto simp: handle_search_def)

lemma handle_reviews_missing:
  "args ''appId'' = None \<or> args ''appId'' = Some [] \<Longrightarrow>
     handle_reviews scraper cfg args = ([], Inr (400, missing_required ''appId''))"
  by (auto simp: handle_reviews_def)

lemma handle_developer_missing:
  "args ''developerId'' = None \<or> args ''developerId'' = Some [] \<Longrightarrow>
     handle_developer scraper cfg args = ([], Inr (400, missing_required ''developerId''))"
  by (auto simp: handle_developer_def)

lemma respond_missing:
  "respond ([], Inr (400, missing_required name))
     = ([], Inr (build_response 400
                   [(''error'', JStr (''Missing required '' @ [CHR 0x27] @ name @ [CHR 0x27]
                                      @ '' parameter.''))] None))"
  by (simp add: missing_required_def)

text \<open>
  C1. For each of the four actions, when the action's required identifier (\<open>appId\<close> for
  \<open>app\<close> and \<open>reviews\<close>, \<open>query\<close> for \<open>search\<close>, \<open>developerId\<close> for \<open>developer\<close>) is
  absent or empty, the dispatch answers 400 with the message
  \<open>Missing required '<name>' parameter.\<close> and makes no call to the service.
\<close>

theorem missing_identifier_is_rejected_before_any_call:
  assumes "args ''action'' = Some a" and "lower a = act"
    and "(act, key) \<in> {(''app'', ''appId''), (''search'', ''query''),
                        (''reviews'', ''appId''), (''developer'', ''developerId'')}"
    and "args key = None \<or> args key = Some []"
  shows "dispatch scraper cfg args
       = ([], Inr (build_response 400
                     [(''error'', JStr (''Missing required '' @ [CHR 0x27] @ key @ [CHR 0x27]
                                        @ '' parameter.''))] None))"
proof -
  consider "act = ''app''" "key = ''appId''" | "act = ''search''" "key = ''query''"
    | "act = ''reviews''" "key = ''appId''" | "act = ''developer''" "key = ''developerId''"
    using assms(3) by auto
  then show ?thesis
  proof cases
    case 1
    have l: "lower a = ''app''" and k: "args ''appId'' = None \<or> args ''appId'' = Some []"
      using assms(2,4) 1 by simp_all
    show ?thesis
      unfolding dispatch_app [where args = args, OF assms(1) l] handle_app_missing [where args = args, OF k] 1
      by (rule respond_missing)
  next
    case 2
    have l: "lower a = ''search''" and k: "args ''query'' = None \<or> args ''query'' = Some []"
      using assms(2,4) 2 by simp_all
    show ?thesis
      unfolding dispatch_search [where args = args, OF assms(1) l] handle_search_missing [where args = args, OF k] 2
      by (rule respond_missing)
  next
    case 3
    have l: "lower a = ''reviews''" and k: "args ''appId'' = None \<or> args ''appId'' = Some []"
      using assms(2,4) 3 by simp_all
    show ?thesis
      unfolding dispatch_reviews [where args = args, OF assms(1) l] handle_reviews_missing [where args = args, OF k] 3
      by (rule respond_missing)
  next
    case 4
    have l: "lower a = ''developer''"
      and k: "args ''developerId'' = None \<or> args ''developerId'' = Some []"
      using assms(2,4) 4 by simp_all
    show ?thesis
      unfolding dispatch_developer [where args = args, OF assms(1) l]
        handle_developer_missing [where args = args, OF k] 4
      by (rule respond_missing)
  qed
qed

theorem missing_identifier_is_rejected_before_any_call_witness:
  "lower ''Search'' = ''search''
   \<and> dispatch (\<lambda>c. Inr (0 :: nat))
        \<lparr>DEFAULT_LANGUAGE = ''en'', DEFAULT_COUNTRY = ''us'', DEFAULT_SEARCH_COUNT = 100,
         DEFAULT_REVIEWS_COUNT = 100, DEFAULT_DEVELOPER_COUNT = 100,
         DEFAULT_REVIEWS_SORT = ''NEWEST''\<rparr>
        [''action'' \<mapsto> ''Search'', ''query'' \<mapsto> []]
      = ([], Inr \<lparr>body = [(''error'', JStr ''Missing required 'query' parameter.'')],
                   status = 400,
                   headers = [(''Content-Type'', ''application/json''),
                              (''Access-Control-Allow-Origin'', ''*'')]\<rparr>)"
proof -
  have l: "lower ''Search'' = ''search''"
    by (simp add: lower_def lower_char_def char_of_def bit_0)
  have a: "[''action'' \<mapsto> ''Search'', ''query'' \<mapsto> []] ''action'' = Some ''Search''"
    by simp
  have k: "(''search'', ''query'') \<in> {(''app'', ''appId''), (''search'', ''query''),
                        (''reviews'', ''appId''), (''developer'', ''developerId'')}"
    by simp
  have q: "[''action'' \<mapsto> ''Search'', ''query'' \<mapsto> []] ''query'' = None
           \<or> [''action'' \<mapsto> ''Search'', ''query'' \<mapsto> []] ''query'' = Some []"
    by simp
  show ?thesis
    using l missing_identifier_is_rejected_before_any_call
      [where args = "[''action'' \<mapsto> ''Search'', ''query'' \<mapsto> []]" and a = "''Search''"
         and act = "''search''" and key = "''query''", OF a l k q]
    by (simp add: build_response_def)
qed

text \<open>
  What the dispatch does when the required identifier is there: one call of the service,
  answered through \<open>respond\<close>, with these arguments.
\<close>

lemma dispatch_present:
  assumes "args ''action'' = Some a" and "lower a = act"
    and "(act, key) \<in> {(''app'', ''appId''), (''search'', ''query''),
                        (''reviews'', ''appId''), (''developer'', ''developerId'')}"
    and "args key = Some ident" and "ident \<noteq> []"
  shows "\<exists>c. dispatch scraper cfg args = respond (call_scraper scraper c)
       \<and> call_action c = act \<and> call_identifier c = ident
       \<and> (if parse_fields (args ''fields'') \<noteq> []
           then is_get_fields c \<and> \<not> is_analyze c \<and> call_fields c = parse_fields (args ''fields'')
           else is_analyze c \<and> \<not> is_get_fields c)
       \<and> call_lang c = get_or args ''lang'' (DEFAULT_LANGUAGE cfg)
       \<and> call_country c = get_or args ''country'' (DEFAULT_COUNTRY cfg)
       \<and> (act = ''app'' \<longrightarrow> call_assets c = get_or_none args ''assets'')
       \<and> (act = ''reviews'' \<longrightarrow>
            call_sort c = Some (get_or args ''sort'' (DEFAULT_REVIEWS_SORT cfg)))
       \<and> (act = ''search'' \<longrightarrow>
            map_option Inr (call_count c) = Some (parse_int (args ''count'') (DEFAULT_SEARCH_COUNT cfg)))
       \<and> (act = ''reviews'' \<longrightarrow>
            map_option Inr (call_count c) = Some (parse_int (args ''count'') (DEFAULT_REVIEWS_COUNT cfg)))
       \<and> (act = ''developer'' \<longrightarrow>
            map_option Inr (call_count c)
              = Some (parse_int (args ''count'') (DEFAULT_DEVELOPER_COUNT cfg)))"
proof -
  consider "act = ''app''" "key = ''appId''" | "act = ''search''" "key = ''query''"
    | "act = ''reviews''" "key = ''appId''" | "act = ''developer''" "key = ''developerId''"
    using assms(3) by auto
  then show ?thesis
  proof cases
    case 1
    have i: "args ''appId'' = Some ident"
      using assms(4) 1 by simp
    have d: "dispatch scraper cfg args = respond (handle_app scraper cfg args)"
      using dispatch_app assms(1,2) 1 by simp
    show ?thesis
      unfolding d handle_app_call [where args = args, OF i assms(5)]
      by (rule exI, rule conjI, rule refl) (simp add: 1)
  next
    case 2
    have i: "args ''query'' = Some ident"
      using assms(4) 2 by simp
    obtain n where n: "parse_int (args ''count'') (DEFAULT_SEARCH_COUNT cfg) = Inr n"
      using parse_int_Inr by blast
    have d: "dispatch scraper cfg args = respond (handle_search scraper cfg args)"
      using dispatch_search assms(1,2) 2 by simp
    show ?thesis
      unfolding d handle_search_call [where args = args, OF i assms(5) n]
      by (rule exI, rule conjI, rule refl) (simp add: 2 n)
  next
    case 3
    have i: "args ''appId'' = Some ident"
      using assms(4) 3 by simp
    obtain n where n: "parse_int (args ''count'') (DEFAULT_REVIEWS_COUNT cfg) = Inr n"
      using parse_int_Inr by blast
    have d: "dispatch scraper cfg args = respond (handle_reviews scraper cfg args)"
      using dispatch_reviews assms(1,2) 3 by simp
    show ?thesis
      unfolding d handle_reviews_call [where args = args, OF i assms(5) n]
      by (rule exI, rule conjI, rule refl) (simp add: 3 n)
  next
    case 4
    have i: "args ''developerId'' = Some ident"
      using assms(4) 4 by simp
    obtain n where n: "parse_int (args ''count'') (DEFAULT_DEVELOPER_COUNT cfg) = Inr n"
      using parse_int_Inr by blast
    have d: "dispatch scraper cfg args = respond (handle_developer scraper cfg args)"
      using dispatch_developer assms(1,2) 4 by simp
    show ?thesis
      unfolding d handle_developer_call [where args = args, OF i assms(5) n]
      by (rule exI, rule conjI, rule refl) (simp add: 4 n)
  qed
qed

text \<open>
  C2. For each of the four actions and every request whose required identifier is present
  and not empty, the dispatch issues exactly one call of the service, for that action and
  that identifier. When the parsed field list is not empty, the call is the selective
  (get-fields) operation with that list, never the full analysis; when the \<open>fields\<close>
  parameter is absent or parses to the empty list, the call is the full analysis, never
  the selective operation.
\<close>

theorem fields_choose_between_selective_and_full_call:
  assumes "args ''action'' = Some a" and "lower a = act"
    and "(act, key) \<in> {(''app'', ''appId''), (''search'', ''query''),
                        (''reviews'', ''appId''), (''developer'', ''developerId'')}"
    and "args key = Some ident" and "ident \<noteq> []"
  shows "\<exists>c. fst (dispatch scraper cfg args) = [c]
       \<and> call_action c = act \<and> call_identifier c = ident
       \<and> (parse_fields (args ''fields'') \<noteq> [] \<longrightarrow>
            is_get_fields c \<and> \<not> is_analyze c
            \<and> call_fields c = parse_fields (args ''fields''))
       \<and> (parse_fields (args ''fields'') = [] \<longrightarrow> is_analyze c \<and> \<not> is_get_fields c)
       \<and> (args ''fields'' = None \<longrightarrow> is_analyze c \<and> \<not> is_get_fields c)"
proof -
  obtain c where d: "dispatch scraper cfg args = respond (call_scraper scraper c)"
    and p: "call_action c = act" "call_identifier c = ident"
    and f: "if parse_fields (args ''fields'') \<noteq> []
            then is_get_fields c \<and> \<not> is_analyze c
                 \<and> call_fields c = parse_fields (args ''fields'')
            else is_analyze c \<and> \<not> is_get_fields c"
    using dispatch_present [OF assms, of scraper cfg] by blast
  have one: "fst (dispatch scraper cfg args) = [c]"
    by (simp add: d fst_respond fst_call_scraper)
  have sel: "parse_fields (args ''fields'') \<noteq> [] \<longrightarrow>
      is_get_fields c \<and> \<not> is_analyze c \<and> call_fields c = parse_fields (args ''fields'')"
    using f by simp
  have full: "parse_fields (args ''fields'') = [] \<longrightarrow> is_analyze c \<and> \<not> is_get_fields c"
    using f by simp
  have "parse_fields None = []"
    by (simp add: parse_fields_def)
  then have absent: "args ''fields'' = None \<longrightarrow> is_analyze c \<and> \<not> is_get_fields c"
    using full by simp
  show ?thesis
    by (rule exI [of _ c]) (intro conjI one p sel full absent)
qed

theorem fields_choose_between_selective_and_full_call_witness:
  "\<exists>c. fst (dispatch (\<lambda>c. Inr (0 :: nat))
             \<lparr>DEFAULT_LANGUAGE = ''en'', DEFAULT_COUNTRY = ''us'', DEFAULT_SEARCH_COUNT = 100,
              DEFAULT_REVIEWS_COUNT = 100, DEFAULT_DEVELOPER_COUNT = 100,
              DEFAULT_REVIEWS_SORT = ''NEWEST''\<rparr>
             [''action'' \<mapsto> ''reviews'', ''appId'' \<mapsto> ''com.whatsapp'',
              ''fields'' \<mapsto> ''score, text'']) = [c]
       \<and> call_action c = ''reviews'' \<and> call_identifier c = ''com.whatsapp''
       \<and> is_get_fields c \<and> \<not> is_analyze c \<and> call_fields c = [''score'', ''text'']"
proof -
  have f: "parse_fields (Some ''score, text'') = [''score'', ''text'']"
    by (simp add: parse_fields_def strip_def is_space_def)
  have l: "lower ''reviews'' = ''reviews''"
    by (simp add: lower_def lower_char_def)
  show ?thesis
    using fields_choose_between_selective_and_full_call
      [where args = "[''action'' \<mapsto> ''reviews'', ''appId'' \<mapsto> ''com.whatsapp'',
                      ''fields'' \<mapsto> ''score, text'']"
         and a = "''reviews''" and act = "''reviews''" and key = "''appId''"
         and ident = "''com.whatsapp''" and scraper = "\<lambda>c. Inr (0 :: nat)"
         and cfg = "\<lparr>DEFAULT_LANGUAGE = ''en'', DEFAULT_COUNTRY = ''us'',
              DEFAULT_SEARCH_COUNT = 100, DEFAULT_REVIEWS_COUNT = 100,
              DEFAULT_DEVELOPER_COUNT = 100, DEFAULT_REVIEWS_SORT = ''NEWEST''\<rparr>"]
    by (simp add: f l)
qed



section \<open>Defaults\<close>

text \<open>
  C7, as amended. For each action, with the identifier present, the one call of the service
  carries: for language and country, and for the sort order of \<open>reviews\<close>, the declared
  default when the parameter is absent and the parameter's value whenever it is present,
  the empty string included; for the asset size of \<open>app\<close>, null both when the parameter is
  absent and when it is the empty string, and its value otherwise.
\<close>

theorem defaults_replace_absent_parameters:
  assumes "args ''action'' = Some a" and "lower a = act"
    and "(act, key) \<in> {(''app'', ''appId''), (''search'', ''query''),
                        (''reviews'', ''appId''), (''developer'', ''developerId'')}"
    and "args key = Some ident" and "ident \<noteq> []"
  shows "\<exists>c. fst (dispatch scraper cfg args) = [c]
       \<and> call_lang c = (case args ''lang'' of None \<Rightarrow> DEFAULT_LANGUAGE cfg | Some v \<Rightarrow> v)
       \<and> call_country c = (case args ''country'' of None \<Rightarrow> DEFAULT_COUNTRY cfg | Some v \<Rightarrow> v)
       \<and> (act = ''reviews'' \<longrightarrow>
            call_sort c
              = Some (case args ''sort'' of None \<Rightarrow> DEFAULT_REVIEWS_SORT cfg | Some v \<Rightarrow> v))
       \<and> (act = ''app'' \<longrightarrow>
            call_assets c
              = (case args ''assets'' of
                   None \<Rightarrow> None
                 | Some v \<Rightarrow> if v = [] then None else Some v))"
proof -
  obtain c where d: "dispatch scraper cfg args = respond (call_scraper scraper c)"
    and l: "call_lang c = get_or args ''lang'' (DEFAULT_LANGUAGE cfg)"
    and n: "call_country c = get_or args ''country'' (DEFAULT_COUNTRY cfg)"
    and s: "act = ''reviews'' \<longrightarrow>
              call_sort c = Some (get_or args ''sort'' (DEFAULT_REVIEWS_SORT cfg))"
    and z: "act = ''app'' \<longrightarrow> call_assets c = get_or_none args ''assets''"
    using dispatch_present [OF assms, of scraper cfg] by blast
  have one: "fst (dispatch scraper cfg args) = [c]"
    by (simp add: d fst_respond fst_call_scraper)
  show ?thesis
    using one l n s z unfolding get_or_def get_or_none_def
    by (intro exI [of _ c] conjI)
qed

theorem defaults_replace_absent_parameters_witness:
  "\<exists>c. fst (dispatch (\<lambda>c. Inr (0 :: nat))
             \<lparr>DEFAULT_LANGUAGE = ''en'', DEFAULT_COUNTRY = ''us'', DEFAULT_SEARCH_COUNT = 100,
              DEFAULT_REVIEWS_COUNT = 100, DEFAULT_DEVELOPER_COUNT = 100,
              DEFAULT_REVIEWS_SORT = ''NEWEST''\<rparr>
             [''action'' \<mapsto> ''app'', ''appId'' \<mapsto> ''com.whatsapp'', ''country'' \<mapsto> ''fr'',
              ''assets'' \<mapsto> []]) = [c]
       \<and> call_lang c = ''en'' \<and> call_country c = ''fr'' \<and> call_assets c = None"
proof -
  have l: "lower ''app'' = ''app''"
    by (simp add: lower_def lower_char_def)
  show ?thesis
    using defaults_replace_absent_parameters
      [where args = "[''action'' \<mapsto> ''app'', ''appId'' \<mapsto> ''com.whatsapp'',
                      ''country'' \<mapsto> ''fr'', ''assets'' \<mapsto> []]"
         and a = "''app''" and act = "''app''" and key = "''appId''"
         and ident = "''com.whatsapp''" and scraper = "\<lambda>c. Inr (0 :: nat)"
         and cfg = "\<lparr>DEFAULT_LANGUAGE = ''en'', DEFAULT_COUNTRY = ''us'',
              DEFAULT_SEARCH_COUNT = 100, DEFAULT_REVIEWS_COUNT = 100,
              DEFAULT_DEVELOPER_COUNT = 100, DEFAULT_REVIEWS_SORT = ''NEWEST''\<rparr>"]
    by (simp add: l)
qed

theorem empty_language_is_not_defaulted_counterexample:
  "fst (dispatch (\<lambda>c. Inr (0 :: nat))
          \<lparr>DEFAULT_LANGUAGE = ''en'', DEFAULT_COUNTRY = ''us'', DEFAULT_SEARCH_COUNT = 100,
           DEFAULT_REVIEWS_COUNT = 100, DEFAULT_DEVELOPER_COUNT = 100,
           DEFAULT_REVIEWS_SORT = ''NEWEST''\<rparr>
          [''action'' \<mapsto> ''app'', ''appId'' \<mapsto> ''com.whatsapp'', ''lang'' \<mapsto> []])
     = [App_analyze ''com.whatsapp'' [] ''us'' None]
   \<and> call_lang (App_analyze ''com.whatsapp'' [] ''us'' None)
       \<noteq> DEFAULT_LANGUAGE
           \<lparr>DEFAULT_LANGUAGE = ''en'', DEFAULT_COUNTRY = ''us'', DEFAULT_SEARCH_COUNT = 100,
            DEFAULT_REVIEWS_COUNT = 100, DEFAULT_DEVELOPER_COUNT = 100,
            DEFAULT_REVIEWS_SORT = ''NEWEST''\<rparr>"
proof -
  have l: "lower ''app'' = ''app''"
    by (simp add: lower_def lower_char_def)
  have a: "[''action'' \<mapsto> ''app'', ''appId'' \<mapsto> ''com.whatsapp'', ''lang'' \<mapsto> []] ''action''
            = Some ''app''"
    by simp
  have i: "[''action'' \<mapsto> ''app'', ''appId'' \<mapsto> ''com.whatsapp'', ''lang'' \<mapsto> []] ''appId''
            = Some ''com.whatsapp''"
    by simp
  have n: "''com.whatsapp'' \<noteq> []"
    by simp
  show ?thesis
    unfolding dispatch_app
      [where args = "[''action'' \<mapsto> ''app'', ''appId'' \<mapsto> ''com.whatsapp'', ''lang'' \<mapsto> []]",
       OF a l]
      handle_app_call
      [where args = "[''action'' \<mapsto> ''app'', ''appId'' \<mapsto> ''com.whatsapp'', ''lang'' \<mapsto> []]",
       OF i n]
    by (simp add: fst_respond fst_call_scraper parse_fields_def get_or_def get_or_none_def)
qed

section \<open>Action lookup\<close>

text \<open>No handler reads the \<open>action\<close> parameter.\<close>

lemma handle_app_ignores_action:
  "handle_app scraper cfg (args(''action'' \<mapsto> x)) = handle_app scraper cfg args"
  by (simp add: handle_app_def get_or_def get_or_none_def Let_def split: option.split)

lemma handle_search_ignores_action:
  "handle_search scraper cfg (args(''action'' \<mapsto> x)) = handle_search scraper cfg args"
  by (simp add: handle_search_def get_or_def Let_def split: option.split sum.split)

lemma handle_reviews_ignores_action:
  "handle_reviews scraper cfg (args(''action'' \<mapsto> x)) = handle_reviews scraper cfg args"
  by (simp add: handle_reviews_def get_or_def Let_def split: option.split sum.split)

lemma handle_developer_ignores_action:
  "handle_developer scraper cfg (args(''action'' \<mapsto> x)) = handle_developer scraper cfg args"
  by (simp add: handle_developer_def get_or_def Let_def split: option.split sum.split)

lemma dispatch_lower:
  "dispatch scraper cfg (args(''action'' \<mapsto> a)) = dispatch scraper cfg (args(''action'' \<mapsto> lower a))"
proof -
  have x: "(args(''action'' \<mapsto> a)) ''action'' = Some a"
    and y: "(args(''action'' \<mapsto> lower a)) ''action'' = Some (lower a)"
    by simp_all
  note ll = lower_idem [of a]
  consider "a = []" | "lower a = ''app''" | "lower a = ''search''" | "lower a = ''reviews''"
    | "lower a = ''developer''"
    | "a \<noteq> []" "lower a \<notin> {''app'', ''search'', ''reviews'', ''developer''}"
    by auto
  then show ?thesis
  proof cases
    case 1
    then show ?thesis by (simp add: lower_def)
  next
    case 2
    have z: "lower (lower a) = ''app''"
      using 2 ll by simp
    show ?thesis
      unfolding dispatch_app [where args = "args(''action'' \<mapsto> a)", OF x 2]
        dispatch_app [where args = "args(''action'' \<mapsto> lower a)", OF y z]
        handle_app_ignores_action
      by (rule refl)
  next
    case 3
    have z: "lower (lower a) = ''search''"
      using 3 ll by simp
    show ?thesis
      unfolding dispatch_search [where args = "args(''action'' \<mapsto> a)", OF x 3]
        dispatch_search [where args = "args(''action'' \<mapsto> lower a)", OF y z]
        handle_search_ignores_action
      by (rule refl)
  next
    case 4
    have z: "lower (lower a) = ''reviews''"
      using 4 ll by simp
    show ?thesis
      unfolding dispatch_reviews [where args = "args(''action'' \<mapsto> a)", OF x 4]
        dispatch_reviews [where args = "args(''action'' \<mapsto> lower a)", OF y z]
        handle_reviews_ignores_action
      by (rule refl)
  next
    case 5
    have z: "lower (lower a) = ''developer''"
      using 5 ll by simp
    show ?thesis
      unfolding dispatch_developer [where args = "args(''action'' \<mapsto> a)", OF x 5]
        dispatch_developer [where args = "args(''action'' \<mapsto> lower a)", OF y z]
        handle_developer_ignores_action
      by (rule refl)
  next
    case 6
    have n: "lower a \<noteq> []"
      using 6(1) by (simp add: lower_Nil_iff)
    have z: "lower (lower a) \<notin> {''app'', ''search'', ''reviews'', ''developer''}"
      using 6(2) ll by simp
    show ?thesis
      unfolding dispatch_unsupported [where args = "args(''action'' \<mapsto> a)", OF x 6]
        dispatch_unsupported [where args = "args(''action'' \<mapsto> lower a)", OF y n z] ll
      by (rule refl)
  qed
qed

text \<open>
  C6, as amended. Action lookup is case-insensitive: the dispatch treats an action string
  exactly as its lowercase form, so \<open>"APP"\<close> is routed as \<open>"app"\<close>. For every non-empty
  string whose lowercase form is none of \<open>app\<close>, \<open>search\<close>, \<open>reviews\<close>, \<open>developer\<close>, the
  dispatch answers 400 with the message \<open>Unsupported action '<lowercase form>'.\<close>; no
  handler is looked up and no call of the service is made. For the empty string, and when
  the parameter is absent, it answers 400 with \<open>Missing 'action' query parameter.\<close>
  instead, again without any handler or call.
\<close>

theorem action_lookup_ignores_case:
  "dispatch scraper cfg (args(''action'' \<mapsto> a)) = dispatch scraper cfg (args(''action'' \<mapsto> lower a))
   \<and> (a \<noteq> [] \<and> lower a \<notin> {''app'', ''search'', ''reviews'', ''developer''} \<longrightarrow>
        dispatch scraper cfg (args(''action'' \<mapsto> a))
          = ([], Inr (build_response 400
                        [(''error'', JStr (''Unsupported action '' @ [CHR 0x27] @ lower a
                                           @ [CHR 0x27] @ ''.''))] None)))
   \<and> dispatch scraper cfg (args(''action'' \<mapsto> []))
        = ([], Inr (build_response 400
                      [(''error'', JStr ''Missing 'action' query parameter.'')] None))
   \<and> (args ''action'' = None \<longrightarrow>
        dispatch scraper cfg args
          = ([], Inr (build_response 400
                        [(''error'', JStr ''Missing 'action' query parameter.'')] None)))"
proof -
  have u: "a \<noteq> [] \<and> lower a \<notin> {''app'', ''search'', ''reviews'', ''developer''} \<longrightarrow>
      dispatch scraper cfg (args(''action'' \<mapsto> a))
        = ([], Inr (build_response 400
                      [(''error'', JStr (''Unsupported action '' @ [CHR 0x27] @ lower a
                                         @ [CHR 0x27] @ ''.''))] None))"
  proof
    assume h: "a \<noteq> [] \<and> lower a \<notin> {''app'', ''search'', ''reviews'', ''developer''}"
    have x: "(args(''action'' \<mapsto> a)) ''action'' = Some a"
      by simp
    show "dispatch scraper cfg (args(''action'' \<mapsto> a))
        = ([], Inr (build_response 400
                      [(''error'', JStr (''Unsupported action '' @ [CHR 0x27] @ lower a
                                         @ [CHR 0x27] @ ''.''))] None))"
      by (rule dispatch_unsupported
          [where args = "args(''action'' \<mapsto> a)", OF x conjunct1 [OF h] conjunct2 [OF h]])
  qed
  have e: "dispatch scraper cfg (args(''action'' \<mapsto> []))
      = ([], Inr (build_response 400
                    [(''error'', JStr ''Missing 'action' query parameter.'')] None))"
    by (rule dispatch_missing_action) simp
  have n: "args ''action'' = None \<longrightarrow>
      dispatch scraper cfg args
        = ([], Inr (build_response 400
                      [(''error'', JStr ''Missing 'action' query parameter.'')] None))"
  proof
    assume h: "args ''action'' = None"
    show "dispatch scraper cfg args
        = ([], Inr (build_response 400
                      [(''error'', JStr ''Missing 'action' query parameter.'')] None))"
      by (rule dispatch_missing_action) (simp add: h)
  qed
  show ?thesis
    by (intro conjI dispatch_lower u e n)
qed

theorem action_lookup_ignores_case_witness:
  "''Foo'' \<noteq> [] \<and> lower ''Foo'' \<notin> {''app'', ''search'', ''reviews'', ''developer''}
   \<and> dispatch (\<lambda>c. Inr (0 :: nat))
        \<lparr>DEFAULT_LANGUAGE = ''en'', DEFAULT_COUNTRY = ''us'', DEFAULT_SEARCH_COUNT = 100,
         DEFAULT_REVIEWS_COUNT = 100, DEFAULT_DEVELOPER_COUNT = 100,
         DEFAULT_REVIEWS_SORT = ''NEWEST''\<rparr>
        [''appId'' \<mapsto> ''com.whatsapp'', ''action'' \<mapsto> ''Foo'']
      = ([], Inr \<lparr>body = [(''error'', JStr ''Unsupported action 'foo'.'')],
                   status = 400,
                   headers = [(''Content-Type'', ''application/json''),
                              (''Access-Control-Allow-Origin'', ''*'')]\<rparr>)"
proof -
  have l: "lower ''Foo'' = ''foo''"
    by (simp add: lower_def lower_char_def char_of_def bit_0)
  have h: "''Foo'' \<noteq> [] \<and> lower ''Foo'' \<notin> {''app'', ''search'', ''reviews'', ''developer''}"
    by (simp add: l)
  note t = action_lookup_ignores_case
      [where args = "[''appId'' \<mapsto> ''com.whatsapp'']" and a = "''Foo''"
         and scraper = "\<lambda>c. Inr (0 :: nat)"
         and cfg = "\<lparr>DEFAULT_LANGUAGE = ''en'', DEFAULT_COUNTRY = ''us'',
              DEFAULT_SEARCH_COUNT = 100, DEFAULT_REVIEWS_COUNT = 100,
              DEFAULT_DEVELOPER_COUNT = 100, DEFAULT_REVIEWS_SORT = ''NEWEST''\<rparr>"]
  have "dispatch (\<lambda>c. Inr (0 :: nat))
        \<lparr>DEFAULT_LANGUAGE = ''en'', DEFAULT_COUNTRY = ''us'', DEFAULT_SEARCH_COUNT = 100,
         DEFAULT_REVIEWS_COUNT = 100, DEFAULT_DEVELOPER_COUNT = 100,
         DEFAULT_REVIEWS_SORT = ''NEWEST''\<rparr>
        [''appId'' \<mapsto> ''com.whatsapp'', ''action'' \<mapsto> ''Foo'']
      = ([], Inr (build_response 400
                    [(''error'', JStr (''Unsupported action '' @ [CHR 0x27] @ lower ''Foo''
                                       @ [CHR 0x27] @ ''.''))] None))"
    using h t [THEN conjunct2, THEN conjunct1] by (rule rev_mp)
  then show ?thesis
    using h by (simp add: l build_response_def)
qed

theorem empty_action_is_missing_not_unsupported_counterexample:
  "lower [] \<notin> {''app'', ''search'', ''reviews'', ''developer''}
   \<and> dispatch (\<lambda>c. Inr (0 :: nat))
        \<lparr>DEFAULT_LANGUAGE = ''en'', DEFAULT_COUNTRY = ''us'', DEFAULT_SEARCH_COUNT = 100,
         DEFAULT_REVIEWS_COUNT = 100, DEFAULT_DEVELOPER_COUNT = 100,
         DEFAULT_REVIEWS_SORT = ''NEWEST''\<rparr>
        [''action'' \<mapsto> []]
      = ([], Inr \<lparr>body = [(''error'', JStr ''Missing 'action' query parameter.'')],
                   status = 400,
                   headers = [(''Content-Type'', ''application/json''),
                              (''Access-Control-Allow-Origin'', ''*'')]\<rparr>)
   \<and> ''Missing 'action' query parameter.''
       \<noteq> ''Unsupported action '' @ [CHR 0x27] @ lower [] @ [CHR 0x27] @ ''.''"
  by (simp add: lower_def dispatch_def build_response_def)

section \<open>Responses\<close>







section \<open>The worker of the front end\<close>

lemma task_enqueues_one_callback: "length (after_queue (task_enter scraper c)) = 1"
proof (cases "scraper c")
  case (Inl e)
  then show ?thesis
    by (cases e) (simp_all add: task_enter_def)
next
  case (Inr data)
  then show ?thesis
    by (simp add: task_enter_def)
qed

lemma run_success:
  "scraper c = Inr data \<Longrightarrow>
     run scraper c sched u = [Inr (handle_success data (run_async c u))]"
  by (cases sched) (simp_all add: run_def task_enter_def task_exit_def run_callback_def)

lemma run_scraper_error_inside_clause:
  "scraper c = Inl (GPlayScraperError m) \<Longrightarrow>
     run scraper c Callback_before_clause_end u
       = [Inr (handle_error (''Scraper error: '' @ m) (run_async c u))]"
  by (simp add: run_def task_enter_def run_callback_def)

lemma run_error_after_clause:
  "scraper c = Inl e \<Longrightarrow> run scraper c Callback_after_clause_end u = [Inl unbound_exc]"
  by (cases e) (simp_all add: run_def task_enter_def task_exit_def run_callback_def)

text \<open>
  C8. The worker does hand exactly one callback to the queue for each outcome of the call,
  and the success callback displays the payload. An error callback, though, reads \<open>exc\<close>
  when the event loop calls it; once the worker has left its \<open>except\<close> clause the name is
  unbound, the callback raises \<open>NameError\<close>, and the error box with the exception's message
  is never shown: the status line stays at \<open>Running...\<close>. Here the scraper raises
  \<open>GPlayScraperError("App not found")\<close> and the callback runs after the clause has ended.
\<close>

theorem error_callback_raises_NameError_after_clause_end:
  "run (\<lambda>c. Inl (GPlayScraperError ''App not found'') :: exn + nat)
       (App_analyze ''com.example.missing'' ''en'' ''us'' (Some ''SMALL''))
       Callback_after_clause_end
       \<lparr>status_var = ''Ready'', result_text = [], dialogs = [], threads = []\<rparr>
     = [Inl (NameError ''cannot access free variable 'exc' where it is not associated with a value in enclosing scope'')]
   \<and> length (after_queue (task_enter (\<lambda>c. Inl (GPlayScraperError ''App not found'') :: exn + nat)
               (App_analyze ''com.example.missing'' ''en'' ''us'' (Some ''SMALL'')))) = 1
   \<and> run (\<lambda>c. Inl (GPlayScraperError ''App not found'') :: exn + nat)
       (App_analyze ''com.example.missing'' ''en'' ''us'' (Some ''SMALL''))
       Callback_before_clause_end
       \<lparr>status_var = ''Ready'', result_text = [], dialogs = [], threads = []\<rparr>
     = [Inr \<lparr>status_var = ''Error'', result_text = [],
             dialogs = [Showerror ''GPlay Scraper'' ''Scraper error: App not found''],
             threads = [App_analyze ''com.example.missing'' ''en'' ''us'' (Some ''SMALL'')]\<rparr>]"
  by (simp add: run_def run_async_def set_status_def clear_results_def task_enter_def
      task_exit_def run_callback_def unbound_exc_def handle_error_def show_error_def)

end
